theory Spec2Isabelle
  imports Main "HOL-Library.Word" "HOL-Library.Multiset"
begin

section \<open>RACK state tracking of the TCP sender (rackControl)\<close>

subsection \<open>Sequence numbers, time and durations\<close>

type_synonym seqnum_Value = "32 word"
type_synonym seqnum_Size = "32 word"

text \<open>
  Modelled from the spec: the package seqnum (types Value and Size, methods Add and
  LessThan) is imported by the source but is not part of it. The spec asks for a 32-bit
  modular ring with wraparound-aware addition and comparison: Add is addition modulo
  \<open>2 ^ 32\<close>, and LessThan reads the wrapped difference as a signed 32-bit number.
\<close>

definition seqnum_Add :: "seqnum_Value \<Rightarrow> seqnum_Size \<Rightarrow> seqnum_Value" where
  "seqnum_Add v s = v + s"

definition seqnum_LessThan :: "seqnum_Value \<Rightarrow> seqnum_Value \<Rightarrow> bool" where
  "seqnum_LessThan v w = (sint (v - w) < 0)"

text \<open>
  An instant (Go's time.Time) is a number of nanoseconds on one time line; a duration
  (time.Duration) is a signed 64-bit number of nanoseconds. Sub saturates at the
  bounds of a duration, as Go's does.
\<close>

type_synonym time_Time = int
type_synonym time_Duration = int

definition minDuration :: time_Duration where
  "minDuration = - (2 ^ 63)"

definition maxDuration :: time_Duration where
  "maxDuration = 2 ^ 63 - 1"

definition time_Sub :: "time_Time \<Rightarrow> time_Time \<Rightarrow> time_Duration" where
  "time_Sub t u =
     (let d = t - u in
      if d < minDuration then minDuration
      else if maxDuration < d then maxDuration
      else d)"

definition time_Before :: "time_Time \<Rightarrow> time_Time \<Rightarrow> bool" where
  "time_Before t u = (t < u)"

definition time_Equal :: "time_Time \<Rightarrow> time_Time \<Rightarrow> bool" where
  "time_Equal t u = (t = u)"

subsection \<open>Segments and the RACK state\<close>

text \<open>The fields of a segment that the RACK code reads.\<close>

record tcpOptions =
  TS :: bool
  TSEcr :: "32 word"

record segment =
  sequenceNumber :: seqnum_Value
  dataSize :: nat
  seg_xmitTime :: time_Time
  xmitCount :: "32 word"
  parsedOptions :: tcpOptions

record rackControl =
  dsackSeen :: bool
  endSequence :: seqnum_Value
  fack :: seqnum_Value
  minRTT :: time_Duration
  rtt :: time_Duration
  reorderSeen :: bool
  xmitTime :: time_Time

text \<open>The end sequence number of a segment: its start plus the size of its data.\<close>

definition seg_endSeq :: "segment \<Rightarrow> seqnum_Value" where
  "seg_endSeq seg = seqnum_Add (sequenceNumber seg) (of_nat (dataSize seg))"

subsection \<open>The three operations\<close>

text \<open>
  \<open>update\<close> takes the clock reading \<open>now\<close> (the source reads time.Now()) and the
  function \<open>tcpTimeStamp\<close>, which the source calls but does not define.
\<close>

definition update ::
  "(time_Time \<Rightarrow> 32 word \<Rightarrow> 32 word) \<Rightarrow> time_Time \<Rightarrow> segment \<Rightarrow> segment \<Rightarrow> 32 word
     \<Rightarrow> rackControl \<Rightarrow> rackControl" where
  "update tcpTimeStamp now seg ackSeg offset rc =
     (let sample = time_Sub now (seg_xmitTime seg) in
      if 1 < xmitCount seg \<and> TS (parsedOptions ackSeg) \<and> TSEcr (parsedOptions ackSeg) \<noteq> 0
         \<and> TSEcr (parsedOptions ackSeg) < tcpTimeStamp (seg_xmitTime seg) offset
      then rc
      else if 1 < xmitCount seg \<and> sample < minRTT rc
      then rc
      else
        let rc1 = rc\<lparr>rtt := sample\<rparr>;
            rc2 = (if sample < minRTT rc1 \<or> minRTT rc1 = 0 then rc1\<lparr>minRTT := sample\<rparr> else rc1);
            endSeq = seg_endSeq seg
        in if time_Before (xmitTime rc2) (seg_xmitTime seg)
              \<or> (time_Equal (seg_xmitTime seg) (xmitTime rc2)
                  \<and> seqnum_LessThan (endSequence rc2) endSeq)
           then rc2\<lparr>xmitTime := seg_xmitTime seg, endSequence := endSeq\<rparr>
           else rc2)"

definition detectReorder :: "segment \<Rightarrow> rackControl \<Rightarrow> rackControl" where
  "detectReorder seg rc =
     (let endSeq = seg_endSeq seg in
      if seqnum_LessThan (fack rc) endSeq then rc\<lparr>fack := endSeq\<rparr>
      else if seqnum_LessThan endSeq (fack rc) \<and> xmitCount seg = 1
      then rc\<lparr>reorderSeen := True\<rparr>
      else rc)"

definition setDSACKSeen :: "rackControl \<Rightarrow> rackControl" where
  "setDSACKSeen rc = rc\<lparr>dsackSeen := True\<rparr>"

text \<open>
  The two early returns of \<open>update\<close>: the sample of a retransmitted segment is
  discarded when the echoed timestamp is older than the retransmission, or when the
  sample is below the minimum RTT.
\<close>

definition discards ::
  "(time_Time \<Rightarrow> 32 word \<Rightarrow> 32 word) \<Rightarrow> time_Time \<Rightarrow> segment \<Rightarrow> segment \<Rightarrow> 32 word
     \<Rightarrow> rackControl \<Rightarrow> bool" where
  "discards tcpTimeStamp now seg ackSeg offset rc =
     (1 < xmitCount seg \<and>
      ((TS (parsedOptions ackSeg) \<and> TSEcr (parsedOptions ackSeg) \<noteq> 0
        \<and> TSEcr (parsedOptions ackSeg) < tcpTimeStamp (seg_xmitTime seg) offset)
       \<or> time_Sub now (seg_xmitTime seg) < minRTT rc))"

subsection \<open>Sequences of calls on one connection\<close>

datatype rackOp =
  Update time_Time segment segment
| DetectReorder segment
| SetDSACKSeen

fun apply_op :: "(time_Time \<Rightarrow> 32 word \<Rightarrow> 32 word) \<Rightarrow> 32 word \<Rightarrow> rackOp \<Rightarrow> rackControl \<Rightarrow> rackControl" where
  "apply_op ts offset (Update now seg ackSeg) rc = update ts now seg ackSeg offset rc"
| "apply_op ts offset (DetectReorder seg) rc = detectReorder seg rc"
| "apply_op ts offset SetDSACKSeen rc = setDSACKSeen rc"

definition run :: "(time_Time \<Rightarrow> 32 word \<Rightarrow> 32 word) \<Rightarrow> 32 word \<Rightarrow> rackOp list \<Rightarrow> rackControl \<Rightarrow> rackControl" where
  "run ts offset ops rc = fold (apply_op ts offset) ops rc"

text \<open>The state of a new connection: every field has Go's zero value.\<close>

definition time_zero :: time_Time where
  "time_zero = - 62135596800000000000"

definition rackControl_zero :: rackControl where
  "rackControl_zero =
     \<lparr>dsackSeen = False, endSequence = 0, fack = 0, minRTT = 0, rtt = 0,
      reorderSeen = False, xmitTime = time_zero\<rparr>"

text \<open>A timestamp function for concrete runs: milliseconds plus the offset, modulo \<open>2 ^ 32\<close>.\<close>

definition ts_millis :: "time_Time \<Rightarrow> 32 word \<Rightarrow> 32 word" where
  "ts_millis t offset = word_of_int (t div 1000000) + offset"

definition mk_segment :: "seqnum_Value \<Rightarrow> nat \<Rightarrow> time_Time \<Rightarrow> 32 word \<Rightarrow> bool \<Rightarrow> 32 word \<Rightarrow> segment" where
  "mk_segment sq n t c hasTs ecr =
     \<lparr>sequenceNumber = sq, dataSize = n, seg_xmitTime = t, xmitCount = c,
      parsedOptions = \<lparr>TS = hasTs, TSEcr = ecr\<rparr>\<rparr>"

subsection \<open>Accepted samples\<close>

text \<open>
  The calls of \<open>update\<close> in a sequence of calls that do not return early, each with
  its clock reading and its segment; every call is judged in the state it meets.
\<close>

fun accepted ::
  "(time_Time \<Rightarrow> 32 word \<Rightarrow> 32 word) \<Rightarrow> 32 word \<Rightarrow> rackOp list \<Rightarrow> rackControl
     \<Rightarrow> (time_Time \<times> segment) list" where
  "accepted ts offset [] rc = []"
| "accepted ts offset (Update now seg ackSeg # ops) rc =
     (if discards ts now seg ackSeg offset rc then [] else [(now, seg)])
     @ accepted ts offset ops (update ts now seg ackSeg offset rc)"
| "accepted ts offset (DetectReorder seg # ops) rc = accepted ts offset ops (detectReorder seg rc)"
| "accepted ts offset (SetDSACKSeen # ops) rc = accepted ts offset ops (setDSACKSeen rc)"

definition accepted_samples ::
  "(time_Time \<Rightarrow> 32 word \<Rightarrow> 32 word) \<Rightarrow> 32 word \<Rightarrow> rackOp list \<Rightarrow> rackControl
     \<Rightarrow> time_Duration list" where
  "accepted_samples ts offset ops rc =
     map (\<lambda>(now, seg). time_Sub now (seg_xmitTime seg)) (accepted ts offset ops rc)"

text \<open>
  The minimum that a list of non-zero samples leaves in a field that starts at \<open>m\<close>,
  where zero stands for a field that is not set.
\<close>

definition min_of :: "time_Duration \<Rightarrow> time_Duration list \<Rightarrow> time_Duration" where
  "min_of m rs = (if m = 0 then (if rs = [] then 0 else Min (set rs)) else Min (insert m (set rs)))"

subsection \<open>Increasing end sequences\<close>

text \<open>
  \<open>ascending e xs\<close>: starting from \<open>e\<close>, every value of \<open>xs\<close> is above the one before it
  in modular order.
\<close>

fun ascending :: "seqnum_Value \<Rightarrow> seqnum_Value list \<Rightarrow> bool" where
  "ascending e [] = True"
| "ascending e (x # xs) = (seqnum_LessThan e x \<and> ascending x xs)"

subsection \<open>The most recently transmitted segment\<close>

text \<open>
  \<open>in_window b e\<close>: the sequence number \<open>e\<close> lies fewer than \<open>2 ^ 31\<close> places above
  \<open>b\<close>. Within one such window the modular order is a total order.
\<close>

definition in_window :: "seqnum_Value \<Rightarrow> seqnum_Value \<Rightarrow> bool" where
  "in_window b e = (uint (e - b) < 2 ^ 31)"

text \<open>
  The test of \<open>update\<close> for writing xmitTime and endSequence: the segment's transmit
  time is after the current one, or equal to it with a greater end sequence.
\<close>

definition newer :: "time_Time \<times> seqnum_Value \<Rightarrow> time_Time \<times> seqnum_Value \<Rightarrow> bool" where
  "newer cur new =
     (time_Before (fst cur) (fst new)
      \<or> (time_Equal (fst new) (fst cur) \<and> seqnum_LessThan (snd cur) (snd new)))"

text \<open>The pair that \<open>update\<close> maintains.\<close>

definition latest :: "rackControl \<Rightarrow> time_Time \<times> seqnum_Value" where
  "latest rc = (xmitTime rc, endSequence rc)"

text \<open>Transmit time and end sequence of the segments whose sample is accepted.\<close>

definition accepted_pairs ::
  "(time_Time \<Rightarrow> 32 word \<Rightarrow> 32 word) \<Rightarrow> 32 word \<Rightarrow> rackOp list \<Rightarrow> rackControl
     \<Rightarrow> (time_Time \<times> seqnum_Value) list" where
  "accepted_pairs ts offset ops rc =
     map (\<lambda>(now, seg). (seg_xmitTime seg, seg_endSeq seg)) (accepted ts offset ops rc)"

subsection \<open>Batches without filtering\<close>

text \<open>
  \<open>unfiltered\<close>: a call of \<open>update\<close> for a segment that was not retransmitted, with a
  sample that is not zero. \<open>op_in_window\<close>: the end sequence of the call's segment
  lies in the window above \<open>b\<close>.
\<close>

fun unfiltered :: "rackOp \<Rightarrow> bool" where
  "unfiltered (Update now seg ackSeg) = (\<not> 1 < xmitCount seg \<and> time_Sub now (seg_xmitTime seg) \<noteq> 0)"
| "unfiltered (DetectReorder seg) = True"
| "unfiltered SetDSACKSeen = True"

fun op_in_window :: "seqnum_Value \<Rightarrow> rackOp \<Rightarrow> bool" where
  "op_in_window b (Update now seg ackSeg) = in_window b (seg_endSeq seg)"
| "op_in_window b (DetectReorder seg) = in_window b (seg_endSeq seg)"
| "op_in_window b SetDSACKSeen = True"


text \<open>
  For the proof that the order within such a batch does not matter: the four fields
  in question, with the two sequence numbers read as offsets from \<open>b\<close>, and what each
  call does to them.
\<close>

type_synonym abs_rack = "time_Duration \<times> (time_Time \<times> int) \<times> int"

definition abs_state :: "seqnum_Value \<Rightarrow> rackControl \<Rightarrow> abs_rack" where
  "abs_state b rc = (minRTT rc, (xmitTime rc, uint (endSequence rc - b)), uint (fack rc - b))"

definition min_step :: "time_Duration \<Rightarrow> time_Duration \<Rightarrow> time_Duration" where
  "min_step r m = (if r < m \<or> m = 0 then r else m)"

definition lex_step :: "time_Time \<times> int \<Rightarrow> time_Time \<times> int \<Rightarrow> time_Time \<times> int" where
  "lex_step new cur =
     (if fst cur < fst new \<or> (fst new = fst cur \<and> snd cur < snd new) then new else cur)"

fun abs_step :: "seqnum_Value \<Rightarrow> rackOp \<Rightarrow> abs_rack \<Rightarrow> abs_rack" where
  "abs_step b (Update now seg ackSeg) (m, p, f) =
     (min_step (time_Sub now (seg_xmitTime seg)) m,
      lex_step (seg_xmitTime seg, uint (seg_endSeq seg - b)) p,
      f)"
| "abs_step b (DetectReorder seg) (m, p, f) = (m, p, max f (uint (seg_endSeq seg - b)))"
| "abs_step b SetDSACKSeen a = a"

section \<open>Basic facts\<close>

lemma update_discards: "discards ts now seg ackSeg offset rc \<Longrightarrow> update ts now seg ackSeg offset rc = rc"
  by (auto simp: update_def discards_def Let_def)

lemma update_frame:
  "fack (update ts now seg ackSeg offset rc) = fack rc"
  "reorderSeen (update ts now seg ackSeg offset rc) = reorderSeen rc"
  "dsackSeen (update ts now seg ackSeg offset rc) = dsackSeen rc"
  by (simp_all add: update_def Let_def)

lemma detectReorder_frame:
  "rtt (detectReorder seg rc) = rtt rc"
  "minRTT (detectReorder seg rc) = minRTT rc"
  "xmitTime (detectReorder seg rc) = xmitTime rc"
  "endSequence (detectReorder seg rc) = endSequence rc"
  "dsackSeen (detectReorder seg rc) = dsackSeen rc"
  by (simp_all add: detectReorder_def Let_def)

lemma setDSACKSeen_frame:
  "rtt (setDSACKSeen rc) = rtt rc"
  "minRTT (setDSACKSeen rc) = minRTT rc"
  "xmitTime (setDSACKSeen rc) = xmitTime rc"
  "endSequence (setDSACKSeen rc) = endSequence rc"
  "fack (setDSACKSeen rc) = fack rc"
  "reorderSeen (setDSACKSeen rc) = reorderSeen rc"
  by (simp_all add: setDSACKSeen_def)


lemma sint_neg_iff: "(sint (x :: 32 word) < 0) = (2 ^ 31 \<le> uint x)"
proof -
  have "(sint x < 0) = bit (uint x) 31"
    by (simp add: sint_uint)
  also have "\<dots> = odd (uint x div 2 ^ 31)"
    by (simp add: bit_iff_odd)
  also have "\<dots> = (2 ^ 31 \<le> uint x)"
  proof -
    have b: "0 \<le> uint x" "uint x < 2 ^ 32"
      using uint_bounded [of x] by simp_all
    show ?thesis
    proof (cases "2 ^ 31 \<le> uint x")
      case True
      then have "uint x div 2 ^ 31 = 1" using b by simp
      then show ?thesis using True by simp
    next
      case False
      then have "uint x div 2 ^ 31 = 0" using b by simp
      then show ?thesis using False by simp
    qed
  qed
  finally show ?thesis .
qed

lemma LessThan_uint: "seqnum_LessThan v w = (2 ^ 31 \<le> uint (v - w))"
  by (simp add: seqnum_LessThan_def sint_neg_iff)

lemma LessThan_irrefl: "\<not> seqnum_LessThan v v"
  by (simp add: seqnum_LessThan_def)

text \<open>Two different sequence numbers are always ordered one way or the other.\<close>

lemma LessThan_total: "\<not> seqnum_LessThan a b \<Longrightarrow> a \<noteq> b \<Longrightarrow> seqnum_LessThan b a"
  unfolding LessThan_uint by uint_arith auto

lemma apply_op_sticky:
  "reorderSeen rc \<Longrightarrow> reorderSeen (apply_op ts offset x rc)"
  "dsackSeen rc \<Longrightarrow> dsackSeen (apply_op ts offset x rc)"
  by (cases x; simp add: update_def detectReorder_def setDSACKSeen_def Let_def)+

lemma run_sticky:
  "reorderSeen rc \<Longrightarrow> reorderSeen (run ts offset ops rc)"
  "dsackSeen rc \<Longrightarrow> dsackSeen (run ts offset ops rc)"
  unfolding run_def
  by (induction ops arbitrary: rc; simp add: apply_op_sticky)+

lemmas eval_defs = update_def discards_def detectReorder_def setDSACKSeen_def mk_segment_def
  rackControl_zero_def time_zero_def time_Sub_def minDuration_def maxDuration_def
  time_Before_def time_Equal_def seg_endSeq_def seqnum_Add_def seqnum_LessThan_def
  ts_millis_def Let_def

lemma run_Nil [simp]: "run ts offset [] rc = rc"
  by (simp add: run_def)

lemma run_Cons [simp]: "run ts offset (x # ops) rc = run ts offset ops (apply_op ts offset x rc)"
  by (simp add: run_def)

lemma run_append: "run ts offset (xs @ ys) rc = run ts offset ys (run ts offset xs rc)"
  by (simp add: run_def)

lemma accepted_append:
  "accepted ts offset (xs @ ys) rc
     = accepted ts offset xs rc @ accepted ts offset ys (run ts offset xs rc)"
  by (induction ts offset xs rc rule: accepted.induct) simp_all

lemma update_minRTT_accept:
  "\<not> discards ts now seg ackSeg offset rc \<Longrightarrow>
   minRTT (update ts now seg ackSeg offset rc)
     = (if time_Sub now (seg_xmitTime seg) < minRTT rc \<or> minRTT rc = 0
        then time_Sub now (seg_xmitTime seg) else minRTT rc)"
  by (auto simp: update_def discards_def Let_def)

lemma min_of_Nil: "min_of m [] = m"
  by (simp add: min_of_def)

lemma min_of_Cons:
  "r \<noteq> 0 \<Longrightarrow> min_of m (r # rs) = min_of (if r < m \<or> m = 0 then r else m) rs"
  by (cases "rs = []") (auto simp: min_of_def min_def)

lemma minRTT_run:
  "0 \<notin> set (accepted_samples ts offset ops rc) \<Longrightarrow>
   minRTT (run ts offset ops rc) = min_of (minRTT rc) (accepted_samples ts offset ops rc)"
proof (induction ts offset ops rc rule: accepted.induct)
  case (1 ts offset rc)
  then show ?case by (simp add: accepted_samples_def min_of_Nil)
next
  case (2 ts offset now seg ackSeg ops rc)
  show ?case
  proof (cases "discards ts now seg ackSeg offset rc")
    case True
    then show ?thesis using 2 by (simp add: accepted_samples_def update_discards)
  next
    case False
    then show ?thesis using 2
      by (simp add: accepted_samples_def update_minRTT_accept min_of_Cons)
  qed
next
  case (3 ts offset seg ops rc)
  then show ?case by (simp add: accepted_samples_def detectReorder_frame)
next
  case (4 ts offset ops rc)
  then show ?case by (simp add: accepted_samples_def setDSACKSeen_frame)
qed

lemma detect_run_ascending:
  "ascending (fack rc) (map seg_endSeq segs) \<Longrightarrow>
   reorderSeen (run ts offset (map DetectReorder segs) rc) = reorderSeen rc
   \<and> fack (run ts offset (map DetectReorder segs) rc) = last (fack rc # map seg_endSeq segs)"
proof (induction segs arbitrary: rc)
  case Nil
  then show ?case by simp
next
  case (Cons s segs)
  then have lt: "seqnum_LessThan (fack rc) (seg_endSeq s)" by simp
  then have st: "detectReorder s rc = rc\<lparr>fack := seg_endSeq s\<rparr>"
    by (simp add: detectReorder_def Let_def)
  have "ascending (fack (detectReorder s rc)) (map seg_endSeq segs)"
    using Cons.prems st by simp
  from Cons.IH [OF this] show ?case
    using st by simp
qed

lemma ascending_take: "ascending e xs \<Longrightarrow> ascending e (take n xs)"
  by (induction e xs arbitrary: n rule: ascending.induct) (auto simp: take_Cons split: nat.splits)

lemma int_diff_half:
  fixes a b :: int
  assumes "0 \<le> a" "a < 2 ^ 31" "0 \<le> b" "b < 2 ^ 31"
  shows "(2 ^ 31 \<le> (a - b) mod 2 ^ 32) = (a < b)"
proof (cases "a < b")
  case True
  have "(a - b + 2 ^ 32) mod 2 ^ 32 = a - b + 2 ^ 32"
    by (rule mod_pos_pos_trivial) (use True assms in simp_all)
  then have "(a - b) mod 2 ^ 32 = a - b + 2 ^ 32"
    by simp
  then show ?thesis using True assms by simp
next
  case False
  have "(a - b) mod 2 ^ 32 = a - b"
    by (rule mod_pos_pos_trivial) (use False assms in simp_all)
  then show ?thesis using False assms by simp
qed

lemma uint_diff_half:
  fixes x y :: "32 word"
  assumes "uint x < 2 ^ 31" "uint y < 2 ^ 31"
  shows "(2 ^ 31 \<le> uint (x - y)) = (uint x < uint y)"
proof -
  have d: "uint (x - y) = (uint x - uint y) mod 2 ^ 32"
    by (simp add: uint_word_ariths)
  show ?thesis
    unfolding d using assms by (intro int_diff_half) simp_all
qed

lemma LessThan_window:
  "in_window b v \<Longrightarrow> in_window b w \<Longrightarrow> seqnum_LessThan v w = (uint (v - b) < uint (w - b))"
proof -
  assume a: "in_window b v" "in_window b w"
  have e: "v - w = (v - b) - (w - b)" by simp
  show ?thesis
    using a uint_diff_half [of "v - b" "w - b"]
    unfolding LessThan_uint in_window_def e by simp
qed

lemma window_inj: "uint (v - b) = uint (w - b) \<Longrightarrow> v = (w :: 32 word)"
  by (metis diff_add_cancel word_uint_eq_iff)

lemma newer_window:
  "in_window b (snd p) \<Longrightarrow> in_window b (snd q) \<Longrightarrow>
   newer p q = (fst p < fst q \<or> (fst p = fst q \<and> uint (snd p - b) < uint (snd q - b)))"
  by (auto simp: newer_def time_Before_def time_Equal_def LessThan_window)

lemma newer_trans:
  "in_window b (snd p) \<Longrightarrow> in_window b (snd q) \<Longrightarrow> in_window b (snd r) \<Longrightarrow>
   newer p q \<Longrightarrow> newer q r \<Longrightarrow> newer p r"
  by (auto simp: newer_window [of b])

lemma not_newer_trans:
  "in_window b (snd p) \<Longrightarrow> in_window b (snd q) \<Longrightarrow> in_window b (snd r) \<Longrightarrow>
   \<not> newer p q \<Longrightarrow> \<not> newer q r \<Longrightarrow> \<not> newer p r"
  by (auto simp: newer_window [of b])

lemma newer_total:
  "in_window b (snd p) \<Longrightarrow> in_window b (snd q) \<Longrightarrow> \<not> newer p q \<Longrightarrow> \<not> newer q p \<Longrightarrow> p = q"
  by (auto simp: newer_window [of b] prod_eq_iff intro: window_inj)

lemma latest_update:
  "latest (update ts now seg ackSeg offset rc)
     = (if \<not> discards ts now seg ackSeg offset rc
           \<and> newer (latest rc) (seg_xmitTime seg, seg_endSeq seg)
        then (seg_xmitTime seg, seg_endSeq seg) else latest rc)"
  by (auto simp: update_def discards_def latest_def newer_def Let_def)

lemma latest_other:
  "latest (detectReorder seg rc) = latest rc"
  "latest (setDSACKSeen rc) = latest rc"
  by (simp_all add: latest_def detectReorder_frame setDSACKSeen_frame)

lemma latest_run:
  "\<forall>e \<in> insert (snd (latest rc)) (snd ` set (accepted_pairs ts offset ops rc)). in_window b e \<Longrightarrow>
   latest (run ts offset ops rc) \<in> insert (latest rc) (set (accepted_pairs ts offset ops rc))
   \<and> (\<forall>q \<in> insert (latest rc) (set (accepted_pairs ts offset ops rc)).
         \<not> newer (latest (run ts offset ops rc)) q)"
proof (induction ts offset ops rc rule: accepted.induct)
  case (1 ts offset rc)
  then show ?case by (simp add: accepted_pairs_def newer_def time_Before_def LessThan_irrefl)
next
  case (2 ts offset now seg ackSeg ops rc)
  let ?rc' = "update ts now seg ackSeg offset rc"
  let ?p = "(seg_xmitTime seg, seg_endSeq seg)"
  let ?fin = "latest (run ts offset ops ?rc')"
  show ?case
  proof (cases "discards ts now seg ackSeg offset rc")
    case True
    then show ?thesis using 2 by (simp add: accepted_pairs_def update_discards)
  next
    case False
    have ps: "accepted_pairs ts offset (Update now seg ackSeg # ops) rc
        = ?p # accepted_pairs ts offset ops ?rc'"
      using False by (simp add: accepted_pairs_def)
    have wp: "in_window b (snd ?p)" and wrc: "in_window b (snd (latest rc))"
      and wrest: "\<forall>e \<in> snd ` set (accepted_pairs ts offset ops ?rc'). in_window b e"
      using "2.prems" ps by auto
    have l': "latest ?rc' = (if newer (latest rc) ?p then ?p else latest rc)"
      using False by (simp add: latest_update)
    then have wrc': "in_window b (snd (latest ?rc'))"
      using wp wrc by (simp split: if_splits)
    have ih: "?fin \<in> insert (latest ?rc') (set (accepted_pairs ts offset ops ?rc'))"
      "\<forall>q \<in> insert (latest ?rc') (set (accepted_pairs ts offset ops ?rc')). \<not> newer ?fin q"
      using "2.IH" wrc' wrest by auto
    have wfin: "in_window b (snd ?fin)"
      using ih(1) wrc' wrest by auto
    have n': "\<not> newer ?fin (latest ?rc')" using ih(2) by simp
    have a: "\<not> newer ?fin (latest rc)"
    proof (cases "newer (latest rc) ?p")
      case True
      then have "\<not> newer ?fin ?p" using n' l' by simp
      then show ?thesis using True newer_trans [OF wfin wrc wp] by blast
    next
      case False
      then show ?thesis using n' l' by simp
    qed
    have b: "\<not> newer ?fin ?p"
    proof (cases "newer (latest rc) ?p")
      case True
      then show ?thesis using n' l' by simp
    next
      case False
      then show ?thesis using n' l' not_newer_trans [OF wfin wrc wp] by simp
    qed
    have mem: "?fin \<in> insert (latest rc) (insert ?p (set (accepted_pairs ts offset ops ?rc')))"
      using ih(1) l' by (auto split: if_splits)
    show ?thesis
      using mem a b ih(2) by (simp add: ps)
  qed
next
  case (3 ts offset seg ops rc)
  then show ?case by (simp add: accepted_pairs_def latest_other)
next
  case (4 ts offset ops rc)
  then show ?case by (simp add: accepted_pairs_def latest_other)
qed

lemma apply_op_abs:
  "unfiltered x \<Longrightarrow> op_in_window b x \<Longrightarrow> in_window b (endSequence rc) \<Longrightarrow> in_window b (fack rc) \<Longrightarrow>
   abs_state b (apply_op ts offset x rc) = abs_step b x (abs_state b rc)
   \<and> in_window b (endSequence (apply_op ts offset x rc))
   \<and> in_window b (fack (apply_op ts offset x rc))"
proof (cases x)
  case (Update now seg ackSeg)
  assume "unfiltered x" "op_in_window b x" "in_window b (endSequence rc)" "in_window b (fack rc)"
  then show ?thesis using Update
    by (simp add: abs_state_def update_def Let_def time_Before_def time_Equal_def
        LessThan_window [of b] min_step_def lex_step_def)
next
  case (DetectReorder seg)
  assume "unfiltered x" "op_in_window b x" "in_window b (endSequence rc)" "in_window b (fack rc)"
  then show ?thesis using DetectReorder
    by (auto simp: abs_state_def detectReorder_def Let_def LessThan_window [of b] max_def)
next
  case SetDSACKSeen
  assume "unfiltered x" "op_in_window b x" "in_window b (endSequence rc)" "in_window b (fack rc)"
  then show ?thesis using SetDSACKSeen
    by (simp add: abs_state_def setDSACKSeen_def)
qed

lemma run_abs:
  "\<forall>x \<in> set ops. unfiltered x \<and> op_in_window b x \<Longrightarrow>
   in_window b (endSequence rc) \<Longrightarrow> in_window b (fack rc) \<Longrightarrow>
   abs_state b (run ts offset ops rc) = fold (abs_step b) ops (abs_state b rc)"
proof (induction ops arbitrary: rc)
  case Nil
  then show ?case by simp
next
  case (Cons x ops)
  then have "unfiltered x" "op_in_window b x" by simp_all
  from apply_op_abs [OF this Cons.prems(2,3), of ts offset]
  show ?case using Cons.IH [of "apply_op ts offset x rc"] Cons.prems(1) by simp
qed

lemma min_step_commute:
  "r \<noteq> 0 \<Longrightarrow> s \<noteq> 0 \<Longrightarrow> min_step r (min_step s m) = min_step s (min_step r m)"
  by (auto simp: min_step_def)

lemma lex_step_commute: "lex_step p (lex_step q a) = lex_step q (lex_step p a)"
  by (cases p; cases q; cases a) (auto simp: lex_step_def)

lemma abs_step_commute:
  "unfiltered x \<Longrightarrow> unfiltered y \<Longrightarrow> abs_step b x (abs_step b y a) = abs_step b y (abs_step b x a)"
proof -
  assume u: "unfiltered x" "unfiltered y"
  obtain m p f where a: "a = (m, p, f)" by (cases a) auto
  show ?thesis
  proof (cases x)
    case ux: (Update now seg ackSeg)
    show ?thesis
    proof (cases y)
      case uy: (Update now' seg' ackSeg')
      show ?thesis using u unfolding a ux uy
        by (simp add: min_step_commute lex_step_commute)
    next
      case (DetectReorder seg')
      then show ?thesis unfolding a ux by simp
    next
      case SetDSACKSeen
      then show ?thesis by simp
    qed
  next
    case dx: (DetectReorder seg)
    show ?thesis
    proof (cases y)
      case (Update now' seg' ackSeg')
      then show ?thesis unfolding a dx by simp
    next
      case (DetectReorder seg')
      then show ?thesis unfolding a dx by (simp add: max.left_commute)
    next
      case SetDSACKSeen
      then show ?thesis by simp
    qed
  next
    case SetDSACKSeen
    then show ?thesis by simp
  qed
qed

section \<open>The claims\<close>

text \<open>
  C10. Each operation writes only its own fields: \<open>update\<close> never changes fack,
  reorderSeen or dsackSeen; \<open>detectReorder\<close> never changes rtt, minRTT, xmitTime,
  endSequence or dsackSeen; \<open>setDSACKSeen\<close> changes only dsackSeen.
\<close>

theorem C10_frame:
  "fack (update ts now seg ackSeg offset rc) = fack rc
   \<and> reorderSeen (update ts now seg ackSeg offset rc) = reorderSeen rc
   \<and> dsackSeen (update ts now seg ackSeg offset rc) = dsackSeen rc
   \<and> rtt (detectReorder seg rc) = rtt rc
   \<and> minRTT (detectReorder seg rc) = minRTT rc
   \<and> xmitTime (detectReorder seg rc) = xmitTime rc
   \<and> endSequence (detectReorder seg rc) = endSequence rc
   \<and> dsackSeen (detectReorder seg rc) = dsackSeen rc
   \<and> rtt (setDSACKSeen rc) = rtt rc
   \<and> minRTT (setDSACKSeen rc) = minRTT rc
   \<and> xmitTime (setDSACKSeen rc) = xmitTime rc
   \<and> endSequence (setDSACKSeen rc) = endSequence rc
   \<and> fack (setDSACKSeen rc) = fack rc
   \<and> reorderSeen (setDSACKSeen rc) = reorderSeen rc"
  by (simp add: update_frame detectReorder_frame setDSACKSeen_frame)


text \<open>
  C8. \<open>setDSACKSeen\<close> sets dsackSeen to true whatever the state, and calling it twice
  gives the same state as calling it once. Once reorderSeen or dsackSeen is true, it
  is still true after any sequence of calls of the three operations, with any inputs.
\<close>

theorem C8_sticky_flags:
  "dsackSeen (setDSACKSeen rc)
   \<and> setDSACKSeen (setDSACKSeen rc) = setDSACKSeen rc
   \<and> (reorderSeen rc \<longrightarrow> reorderSeen (run ts offset ops rc))
   \<and> (dsackSeen rc \<longrightarrow> dsackSeen (run ts offset ops rc))"
  by (simp add: run_sticky setDSACKSeen_def)

theorem C8_sticky_flags_witness:
  "reorderSeen (rackControl_zero\<lparr>reorderSeen := True, dsackSeen := True\<rparr>)
   \<and> dsackSeen (rackControl_zero\<lparr>reorderSeen := True, dsackSeen := True\<rparr>)
   \<and> reorderSeen (run ts_millis 0
        [DetectReorder (mk_segment 1000 500 100 1 False 0),
         Update 150 (mk_segment 1000 500 100 1 False 0) (mk_segment 0 0 0 0 False 0),
         SetDSACKSeen]
        (rackControl_zero\<lparr>reorderSeen := True, dsackSeen := True\<rparr>))
   \<and> dsackSeen (run ts_millis 0
        [DetectReorder (mk_segment 1000 500 100 1 False 0),
         Update 150 (mk_segment 1000 500 100 1 False 0) (mk_segment 0 0 0 0 False 0),
         SetDSACKSeen]
        (rackControl_zero\<lparr>reorderSeen := True, dsackSeen := True\<rparr>))"
  using C8_sticky_flags [of "rackControl_zero\<lparr>reorderSeen := True, dsackSeen := True\<rparr>" ts_millis 0
      "[DetectReorder (mk_segment 1000 500 100 1 False 0),
        Update 150 (mk_segment 1000 500 100 1 False 0) (mk_segment 0 0 0 0 False 0),
        SetDSACKSeen]"]
  by (simp add: rackControl_zero_def)

text \<open>
  C7. Each of the three operations, on any state and any input, leaves fack equal or
  moves it to a value that is greater in modular order; and when minRTT is not zero
  before the call, it is not larger after the call.
\<close>

theorem C7_monotone:
  "(fack (apply_op ts offset x rc) = fack rc
      \<or> seqnum_LessThan (fack rc) (fack (apply_op ts offset x rc)))
   \<and> (minRTT rc \<noteq> 0 \<longrightarrow> minRTT (apply_op ts offset x rc) \<le> minRTT rc)"
  by (cases x; simp add: update_def detectReorder_def setDSACKSeen_def Let_def)

theorem C7_monotone_witness:
  "minRTT (rackControl_zero\<lparr>minRTT := 50\<rparr>) \<noteq> 0
   \<and> minRTT (apply_op ts_millis 0
        (Update 140 (mk_segment 1000 500 100 1 False 0) (mk_segment 0 0 0 0 False 0))
        (rackControl_zero\<lparr>minRTT := 50\<rparr>)) \<le> 50"
  using C7_monotone [of ts_millis 0
      "Update 140 (mk_segment 1000 500 100 1 False 0) (mk_segment 0 0 0 0 False 0)"
      "rackControl_zero\<lparr>minRTT := 50\<rparr>"]
  by (simp add: rackControl_zero_def)

text \<open>
  C3, as the code has it. When the acknowledged segment was retransmitted
  (xmitCount above 1), the acknowledgement carries the timestamp option, its echoed
  value is not zero, and the echoed value is below the timestamp of the segment's
  transmit time, the call changes nothing. Without the option, or with an echoed
  value of zero, the call goes on to the other checks, where the sample can be accepted.
\<close>

theorem C3_timestamp_discard:
  "1 < xmitCount seg \<Longrightarrow> TS (parsedOptions ackSeg) \<Longrightarrow> TSEcr (parsedOptions ackSeg) \<noteq> 0
   \<Longrightarrow> TSEcr (parsedOptions ackSeg) < ts (seg_xmitTime seg) offset
   \<Longrightarrow> update ts now seg ackSeg offset rc = rc"
  by (simp add: update_def)

theorem C3_timestamp_discard_witness:
  "1 < xmitCount (mk_segment 1000 500 5000000 2 False 0)
   \<and> TS (parsedOptions (mk_segment 0 0 0 0 True 3))
   \<and> TSEcr (parsedOptions (mk_segment 0 0 0 0 True 3)) \<noteq> 0
   \<and> TSEcr (parsedOptions (mk_segment 0 0 0 0 True 3))
        < ts_millis (seg_xmitTime (mk_segment 1000 500 5000000 2 False 0)) 0
   \<and> update ts_millis 15000000 (mk_segment 1000 500 5000000 2 False 0)
        (mk_segment 0 0 0 0 True 3) 0 rackControl_zero = rackControl_zero"
proof -
  have h1: "1 < xmitCount (mk_segment 1000 500 5000000 2 False 0)"
    by (simp add: mk_segment_def)
  have h2: "TS (parsedOptions (mk_segment 0 0 0 0 True 3))"
    by (simp add: mk_segment_def)
  have h3: "TSEcr (parsedOptions (mk_segment 0 0 0 0 True 3)) \<noteq> 0"
    by (simp add: mk_segment_def)
  have h4: "TSEcr (parsedOptions (mk_segment 0 0 0 0 True 3))
        < ts_millis (seg_xmitTime (mk_segment 1000 500 5000000 2 False 0)) 0"
    by (simp add: mk_segment_def ts_millis_def)
  show ?thesis
    using h1 h2 h3 h4
      C3_timestamp_discard [where ts = ts_millis and offset = 0 and now = 15000000
        and rc = rackControl_zero, OF h1 h2 h3 h4]
    by simp
qed

text \<open>
  C3 as stated fails: a retransmitted segment whose acknowledgement has an echoed
  value below the segment's timestamp, but no timestamp option (first case) or an
  echoed value of zero (second case), has its sample accepted and the state changes.
\<close>

theorem C3_counterexample:
  "1 < xmitCount (mk_segment 1000 500 5000000 2 False 0)
   \<and> TSEcr (parsedOptions (mk_segment 0 0 0 0 False 3))
        < ts_millis (seg_xmitTime (mk_segment 1000 500 5000000 2 False 0)) 0
   \<and> rtt (update ts_millis 15000000 (mk_segment 1000 500 5000000 2 False 0)
        (mk_segment 0 0 0 0 False 3) 0 rackControl_zero) = 10000000
   \<and> rtt rackControl_zero = 0
   \<and> TSEcr (parsedOptions (mk_segment 0 0 0 0 True 0))
        < ts_millis (seg_xmitTime (mk_segment 1000 500 5000000 2 False 0)) 0
   \<and> endSequence (update ts_millis 15000000 (mk_segment 1000 500 5000000 2 False 0)
        (mk_segment 0 0 0 0 True 0) 0 rackControl_zero) = 1500
   \<and> endSequence rackControl_zero = 0"
  by (simp add: update_def mk_segment_def ts_millis_def rackControl_zero_def time_zero_def
      time_Sub_def minDuration_def maxDuration_def time_Before_def time_Equal_def
      seg_endSeq_def seqnum_Add_def seqnum_LessThan_def Let_def)


text \<open>
  C4, as the code has it. When fack is not below the segment's end sequence in
  modular order, fack stays as it is, and reorderSeen becomes true exactly when the
  segment was transmitted once and its end sequence differs from fack (so that it is
  strictly below fack); otherwise reorderSeen keeps its value. In particular an end
  sequence equal to fack never sets reorderSeen.
\<close>

theorem C4_not_forward:
  "\<not> seqnum_LessThan (fack rc) (seg_endSeq seg) \<Longrightarrow>
   fack (detectReorder seg rc) = fack rc
   \<and> reorderSeen (detectReorder seg rc)
       = (reorderSeen rc \<or> (xmitCount seg = 1 \<and> seg_endSeq seg \<noteq> fack rc))"
proof -
  assume h: "\<not> seqnum_LessThan (fack rc) (seg_endSeq seg)"
  have "seqnum_LessThan (seg_endSeq seg) (fack rc) = (seg_endSeq seg \<noteq> fack rc)"
    using h LessThan_total [of "fack rc" "seg_endSeq seg"] LessThan_irrefl [of "fack rc"]
    by auto
  then show ?thesis
    using h by (simp add: detectReorder_def Let_def)
qed

theorem C4_not_forward_witness:
  "\<not> seqnum_LessThan (fack (rackControl_zero\<lparr>fack := 1500\<rparr>))
        (seg_endSeq (mk_segment 500 400 100 1 False 0))
   \<and> fack (detectReorder (mk_segment 500 400 100 1 False 0)
        (rackControl_zero\<lparr>fack := 1500\<rparr>)) = 1500
   \<and> reorderSeen (detectReorder (mk_segment 500 400 100 1 False 0)
        (rackControl_zero\<lparr>fack := 1500\<rparr>))"
proof -
  have h: "\<not> seqnum_LessThan (fack (rackControl_zero\<lparr>fack := 1500\<rparr>))
        (seg_endSeq (mk_segment 500 400 100 1 False 0))"
    by (simp add: seqnum_LessThan_def seg_endSeq_def seqnum_Add_def mk_segment_def)
  show ?thesis
    using h C4_not_forward [OF h]
    by (simp add: seg_endSeq_def seqnum_Add_def mk_segment_def)
qed

text \<open>
  C4 as stated fails when the end sequence equals fack: the segment below was
  transmitted once and ends exactly at fack, and reorderSeen stays false.
\<close>

theorem C4_counterexample:
  "seg_endSeq (mk_segment 1000 500 100 1 False 0) = fack (rackControl_zero\<lparr>fack := 1500\<rparr>)
   \<and> xmitCount (mk_segment 1000 500 100 1 False 0) = 1
   \<and> \<not> reorderSeen (detectReorder (mk_segment 1000 500 100 1 False 0)
         (rackControl_zero\<lparr>fack := 1500\<rparr>))"
  by (simp add: detectReorder_def seqnum_LessThan_def seg_endSeq_def seqnum_Add_def
      mk_segment_def rackControl_zero_def Let_def)

text \<open>
  C1, as the code has it. The sign of the sample is never tested. A call with a
  negative sample changes nothing when the segment was retransmitted (xmitCount
  above 1) and either the acknowledgement carries a non-zero echoed timestamp below
  the timestamp of the segment's transmit time, or the sample is below minRTT; the
  latter always holds when minRTT is not negative. In every other case, so for every
  segment that was not retransmitted, the negative sample is accepted like any
  other: rtt becomes the sample, and so does minRTT when the sample is below it or
  minRTT is zero.
\<close>

theorem C1_negative_sample:
  "time_Sub now (seg_xmitTime seg) < 0 \<Longrightarrow>
   (1 < xmitCount seg
      \<and> ((TS (parsedOptions ackSeg) \<and> TSEcr (parsedOptions ackSeg) \<noteq> 0
           \<and> TSEcr (parsedOptions ackSeg) < ts (seg_xmitTime seg) offset)
          \<or> time_Sub now (seg_xmitTime seg) < minRTT rc)
      \<longrightarrow> update ts now seg ackSeg offset rc = rc)
   \<and> (1 < xmitCount seg \<and> 0 \<le> minRTT rc \<longrightarrow> update ts now seg ackSeg offset rc = rc)
   \<and> (\<not> (1 < xmitCount seg
          \<and> ((TS (parsedOptions ackSeg) \<and> TSEcr (parsedOptions ackSeg) \<noteq> 0
               \<and> TSEcr (parsedOptions ackSeg) < ts (seg_xmitTime seg) offset)
              \<or> time_Sub now (seg_xmitTime seg) < minRTT rc))
      \<longrightarrow> rtt (update ts now seg ackSeg offset rc) = time_Sub now (seg_xmitTime seg)
          \<and> minRTT (update ts now seg ackSeg offset rc)
              = (if time_Sub now (seg_xmitTime seg) < minRTT rc \<or> minRTT rc = 0
                 then time_Sub now (seg_xmitTime seg) else minRTT rc))"
proof -
  assume neg: "time_Sub now (seg_xmitTime seg) < 0"
  have d: "update ts now seg ackSeg offset rc = rc"
    if "1 < xmitCount seg
      \<and> ((TS (parsedOptions ackSeg) \<and> TSEcr (parsedOptions ackSeg) \<noteq> 0
           \<and> TSEcr (parsedOptions ackSeg) < ts (seg_xmitTime seg) offset)
          \<or> time_Sub now (seg_xmitTime seg) < minRTT rc)"
    using that update_discards [of ts now seg ackSeg offset rc]
    by (simp add: discards_def)
  have d0: "update ts now seg ackSeg offset rc = rc" if "1 < xmitCount seg \<and> 0 \<le> minRTT rc"
    using that neg d by auto
  have a: "rtt (update ts now seg ackSeg offset rc) = time_Sub now (seg_xmitTime seg)
      \<and> minRTT (update ts now seg ackSeg offset rc)
          = (if time_Sub now (seg_xmitTime seg) < minRTT rc \<or> minRTT rc = 0
             then time_Sub now (seg_xmitTime seg) else minRTT rc)"
    if "\<not> (1 < xmitCount seg
          \<and> ((TS (parsedOptions ackSeg) \<and> TSEcr (parsedOptions ackSeg) \<noteq> 0
               \<and> TSEcr (parsedOptions ackSeg) < ts (seg_xmitTime seg) offset)
              \<or> time_Sub now (seg_xmitTime seg) < minRTT rc))"
    using that by (auto simp: update_def Let_def)
  show ?thesis using d d0 a by blast
qed

theorem C1_negative_sample_witness:
  "time_Sub 50 (seg_xmitTime (mk_segment 1000 500 100 2 False 0)) < 0
   \<and> update ts_millis 50 (mk_segment 1000 500 100 2 False 0) (mk_segment 0 0 0 0 False 0) 0
        rackControl_zero = rackControl_zero
   \<and> update ts_millis 50 (mk_segment 1000 500 100 2 False 0) (mk_segment 0 0 0 0 False 0) 0
        (rackControl_zero\<lparr>minRTT := - 10\<rparr>) = rackControl_zero\<lparr>minRTT := - 10\<rparr>
   \<and> rtt (update ts_millis 50 (mk_segment 1000 500 100 2 False 0) (mk_segment 0 0 0 0 False 0) 0
        (rackControl_zero\<lparr>minRTT := - 100\<rparr>)) = - 50
   \<and> time_Sub 50 (seg_xmitTime (mk_segment 1000 500 100 1 False 0)) < 0
   \<and> rtt (update ts_millis 50 (mk_segment 1000 500 100 1 False 0) (mk_segment 0 0 0 0 False 0) 0
        rackControl_zero) = - 50
   \<and> minRTT (update ts_millis 50 (mk_segment 1000 500 100 1 False 0) (mk_segment 0 0 0 0 False 0) 0
        rackControl_zero) = - 50"
proof -
  let ?k = "mk_segment 0 0 0 0 False 0"
  have v2: "time_Sub 50 (seg_xmitTime (mk_segment 1000 500 100 2 False 0)) = - 50"
    by (simp add: time_Sub_def mk_segment_def minDuration_def maxDuration_def)
  have v1: "time_Sub 50 (seg_xmitTime (mk_segment 1000 500 100 1 False 0)) = - 50"
    by (simp add: time_Sub_def mk_segment_def minDuration_def maxDuration_def)
  have h2: "time_Sub 50 (seg_xmitTime (mk_segment 1000 500 100 2 False 0)) < 0"
    using v2 by simp
  have h1: "time_Sub 50 (seg_xmitTime (mk_segment 1000 500 100 1 False 0)) < 0"
    using v1 by simp
  have c: "1 < xmitCount (mk_segment 1000 500 100 2 False 0)"
    "\<not> 1 < xmitCount (mk_segment 1000 500 100 1 False 0)"
    "\<not> TS (parsedOptions ?k)"
    by (simp_all add: mk_segment_def)
  have m: "minRTT rackControl_zero = 0"
    by (simp add: rackControl_zero_def)
  show ?thesis
    using h1 h2 c
      C1_negative_sample [OF h2, of ?k ts_millis 0 rackControl_zero]
      C1_negative_sample [OF h2, of ?k ts_millis 0 "rackControl_zero\<lparr>minRTT := - 10\<rparr>"]
      C1_negative_sample [OF h2, of ?k ts_millis 0 "rackControl_zero\<lparr>minRTT := - 100\<rparr>"]
      C1_negative_sample [OF h1, of ?k ts_millis 0 rackControl_zero]
    by (simp add: v1 v2 m)
qed

text \<open>
  C1 as stated fails: the segment below was transmitted once, at a time after the
  clock reading, so the sample is negative; the call stores the negative sample in
  rtt and in minRTT.
\<close>

theorem C1_counterexample:
  "time_Sub 50 (seg_xmitTime (mk_segment 1000 500 100 1 False 0)) < 0
   \<and> rtt (update ts_millis 50 (mk_segment 1000 500 100 1 False 0) (mk_segment 0 0 0 0 False 0) 0
        rackControl_zero) = - 50
   \<and> minRTT (update ts_millis 50 (mk_segment 1000 500 100 1 False 0) (mk_segment 0 0 0 0 False 0) 0
        rackControl_zero) = - 50
   \<and> rtt rackControl_zero = 0 \<and> minRTT rackControl_zero = 0"
  by (simp add: update_def mk_segment_def rackControl_zero_def
      time_Sub_def minDuration_def maxDuration_def Let_def)

text \<open>
  C5, as the code has it. Take a sequence of calls on a connection whose minRTT is
  not set (zero) at the start and in which no accepted sample is exactly zero. At any
  point of the sequence where a sample has been accepted, minRTT is the minimum of
  the samples accepted so far, and at every later point minRTT is that minimum over
  the longer sequence, which is not larger.
\<close>

theorem C5_minRTT_minimum:
  "minRTT rc = 0 \<Longrightarrow> 0 \<notin> set (accepted_samples ts offset (pre @ post) rc) \<Longrightarrow>
   accepted_samples ts offset pre rc \<noteq> [] \<Longrightarrow>
   minRTT (run ts offset pre rc) = Min (set (accepted_samples ts offset pre rc))
   \<and> minRTT (run ts offset (pre @ post) rc)
       = Min (set (accepted_samples ts offset (pre @ post) rc))
   \<and> minRTT (run ts offset (pre @ post) rc) \<le> minRTT (run ts offset pre rc)"
proof -
  assume m: "minRTT rc = 0" and z: "0 \<notin> set (accepted_samples ts offset (pre @ post) rc)"
    and ne: "accepted_samples ts offset pre rc \<noteq> []"
  have sub: "set (accepted_samples ts offset pre rc)
      \<subseteq> set (accepted_samples ts offset (pre @ post) rc)"
    by (auto simp: accepted_samples_def accepted_append)
  then have z': "0 \<notin> set (accepted_samples ts offset pre rc)" using z by blast
  have ne': "accepted_samples ts offset (pre @ post) rc \<noteq> []" using ne sub by auto
  have a: "minRTT (run ts offset pre rc) = Min (set (accepted_samples ts offset pre rc))"
    using minRTT_run [OF z'] m ne by (simp add: min_of_def)
  have b: "minRTT (run ts offset (pre @ post) rc)
      = Min (set (accepted_samples ts offset (pre @ post) rc))"
    using minRTT_run [OF z] m ne' by (simp add: min_of_def)
  have "Min (set (accepted_samples ts offset (pre @ post) rc))
      \<le> Min (set (accepted_samples ts offset pre rc))"
    using sub ne by (intro Min_antimono) auto
  then show ?thesis using a b by simp
qed

theorem C5_minRTT_minimum_witness:
  "minRTT rackControl_zero = 0
   \<and> accepted_samples ts_millis 0
        [Update 150 (mk_segment 1000 500 100 1 False 0) (mk_segment 0 0 0 0 False 0),
         Update 150 (mk_segment 500 400 110 1 False 0) (mk_segment 0 0 0 0 False 0)]
        rackControl_zero = [50, 40]
   \<and> minRTT (run ts_millis 0
        [Update 150 (mk_segment 1000 500 100 1 False 0) (mk_segment 0 0 0 0 False 0)]
        rackControl_zero) = 50
   \<and> minRTT (run ts_millis 0
        [Update 150 (mk_segment 1000 500 100 1 False 0) (mk_segment 0 0 0 0 False 0),
         Update 150 (mk_segment 500 400 110 1 False 0) (mk_segment 0 0 0 0 False 0)]
        rackControl_zero) = 40"
proof -
  let ?a = "Update 150 (mk_segment 1000 500 100 1 False 0) (mk_segment 0 0 0 0 False 0)"
  let ?b = "Update 150 (mk_segment 500 400 110 1 False 0) (mk_segment 0 0 0 0 False 0)"
  have m: "minRTT rackControl_zero = 0"
    by (simp add: rackControl_zero_def)
  have s2: "accepted_samples ts_millis 0 [?a, ?b] rackControl_zero = [50, 40]"
    by (simp add: accepted_samples_def eval_defs)
  have s1: "accepted_samples ts_millis 0 [?a] rackControl_zero = [50]"
    by (simp add: accepted_samples_def eval_defs)
  have z: "0 \<notin> set (accepted_samples ts_millis 0 ([?a] @ [?b]) rackControl_zero)"
    using s2 by simp
  have ne: "accepted_samples ts_millis 0 [?a] rackControl_zero \<noteq> []"
    using s1 by simp
  show ?thesis
    using C5_minRTT_minimum [OF m z ne] m s1 s2 by simp
qed

text \<open>
  C5 as stated fails when a sample of exactly zero is accepted: the first call below
  has a sample of zero and leaves minRTT at zero, which the second call reads as
  not set, so that minRTT rises to 40 although the minimum of the accepted samples
  is zero.
\<close>

theorem C5_counterexample:
  "accepted_samples ts_millis 0
     [Update 100 (mk_segment 1000 500 100 1 False 0) (mk_segment 0 0 0 0 False 0),
      Update 150 (mk_segment 1500 500 110 1 False 0) (mk_segment 0 0 0 0 False 0)]
     rackControl_zero = [0, 40]
   \<and> minRTT (run ts_millis 0
     [Update 100 (mk_segment 1000 500 100 1 False 0) (mk_segment 0 0 0 0 False 0)]
     rackControl_zero) = 0
   \<and> minRTT (run ts_millis 0
     [Update 100 (mk_segment 1000 500 100 1 False 0) (mk_segment 0 0 0 0 False 0),
      Update 150 (mk_segment 1500 500 110 1 False 0) (mk_segment 0 0 0 0 False 0)]
     rackControl_zero) = 40
   \<and> Min (set [0, 40 :: int]) = 0"
  by (simp add: accepted_samples_def eval_defs)

text \<open>
  C9, as the code has it. Take a state with reorderSeen false whose fack is equal to
  or below the first end sequence in modular order, and a sequence of segments, of
  any transmit counts (in particular all 1), whose end sequences each lie above the
  one before in modular order. After each of the first \<open>n\<close> calls of
  \<open>detectReorder\<close>, reorderSeen is still false and fack is the end sequence of the
  latest segment, the greatest seen so far.
\<close>

theorem C9_increasing:
  "\<not> reorderSeen rc \<Longrightarrow>
   fack rc = seg_endSeq s \<or> seqnum_LessThan (fack rc) (seg_endSeq s) \<Longrightarrow>
   ascending (seg_endSeq s) (map seg_endSeq rest) \<Longrightarrow>
   0 < n \<Longrightarrow> n \<le> length (s # rest) \<Longrightarrow>
   \<not> reorderSeen (run ts offset (map DetectReorder (take n (s # rest))) rc)
   \<and> fack (run ts offset (map DetectReorder (take n (s # rest))) rc)
       = seg_endSeq ((s # rest) ! (n - 1))"
proof -
  assume r: "\<not> reorderSeen rc"
    and f: "fack rc = seg_endSeq s \<or> seqnum_LessThan (fack rc) (seg_endSeq s)"
    and a: "ascending (seg_endSeq s) (map seg_endSeq rest)"
    and n: "0 < n" "n \<le> length (s # rest)"
  obtain k where k: "n = Suc k" using n by (cases n) auto
  let ?rc1 = "detectReorder s rc"
  have f1: "fack ?rc1 = seg_endSeq s" and r1: "\<not> reorderSeen ?rc1"
    using f r LessThan_irrefl by (auto simp: detectReorder_def Let_def)
  have "ascending (fack ?rc1) (map seg_endSeq (take k rest))"
    using a f1 ascending_take [of "seg_endSeq s" "map seg_endSeq rest" k]
    by (simp add: take_map)
  from detect_run_ascending [OF this, of ts offset]
  have "\<not> reorderSeen (run ts offset (map DetectReorder (take k rest)) ?rc1)"
    and "fack (run ts offset (map DetectReorder (take k rest)) ?rc1)
         = last (seg_endSeq s # map seg_endSeq (take k rest))"
    using r1 f1 by simp_all
  moreover have "last (seg_endSeq s # map seg_endSeq (take k rest)) = seg_endSeq ((s # rest) ! k)"
    using n k
    by (cases k) (auto simp: last_conv_nth nth_Cons split: nat.splits)
  ultimately show ?thesis using k by simp
qed

theorem C9_increasing_witness:
  "\<not> reorderSeen rackControl_zero
   \<and> seqnum_LessThan (fack rackControl_zero) (seg_endSeq (mk_segment 1000 500 100 1 False 0))
   \<and> ascending (seg_endSeq (mk_segment 1000 500 100 1 False 0))
        (map seg_endSeq [mk_segment 1500 500 110 1 False 0])
   \<and> \<not> reorderSeen (run ts_millis 0
        [DetectReorder (mk_segment 1000 500 100 1 False 0),
         DetectReorder (mk_segment 1500 500 110 1 False 0)] rackControl_zero)
   \<and> fack (run ts_millis 0
        [DetectReorder (mk_segment 1000 500 100 1 False 0),
         DetectReorder (mk_segment 1500 500 110 1 False 0)] rackControl_zero) = 2000"
proof -
  let ?s = "mk_segment 1000 500 100 1 False 0"
  let ?t = "mk_segment 1500 500 110 1 False 0"
  have r: "\<not> reorderSeen rackControl_zero"
    by (simp add: rackControl_zero_def)
  have lt: "seqnum_LessThan (fack rackControl_zero) (seg_endSeq ?s)"
    by (simp add: eval_defs)
  then have f: "fack rackControl_zero = seg_endSeq ?s
      \<or> seqnum_LessThan (fack rackControl_zero) (seg_endSeq ?s)" ..
  have a: "ascending (seg_endSeq ?s) (map seg_endSeq [?t])"
    by (simp add: eval_defs)
  have n: "0 < (2::nat)" "2 \<le> length [?s, ?t]"
    by simp_all
  have e: "seg_endSeq ([?s, ?t] ! (2 - 1)) = 2000"
    by (simp add: eval_defs)
  show ?thesis
    using C9_increasing [OF r f a n, of ts_millis 0] r lt a e by simp
qed

text \<open>
  C9 as stated fails when fack starts above the first end sequence: the state below
  has reorderSeen false and fack 1500, the one segment was transmitted once and ends
  at 900; the call sets reorderSeen and leaves fack at 1500.
\<close>

theorem C9_counterexample:
  "\<not> reorderSeen (rackControl_zero\<lparr>fack := 1500\<rparr>)
   \<and> xmitCount (mk_segment 500 400 110 1 False 0) = 1
   \<and> seg_endSeq (mk_segment 500 400 110 1 False 0) = 900
   \<and> reorderSeen (run ts_millis 0 [DetectReorder (mk_segment 500 400 110 1 False 0)]
        (rackControl_zero\<lparr>fack := 1500\<rparr>))
   \<and> fack (run ts_millis 0 [DetectReorder (mk_segment 500 400 110 1 False 0)]
        (rackControl_zero\<lparr>fack := 1500\<rparr>)) = 1500"
  by (simp add: eval_defs)

text \<open>
  C6, as the code has it. Let the end sequence in the state and the end sequences of
  the accepted segments of a sequence of calls all lie in one window of fewer than
  \<open>2 ^ 31\<close> sequence numbers. Afterwards the pair of xmitTime and endSequence is
  the pair of the state before or of an accepted segment, and no such pair is newer
  than it (a later transmit time, or the same with a greater end sequence in modular
  order). It is the pair of an accepted segment as soon as one of them is not older
  than the pair of the state before. A single call writes the pair exactly when its
  sample is accepted and the segment is newer than the current pair.
\<close>

theorem C6_latest_pair:
  "\<forall>e \<in> insert (endSequence rc) (snd ` set (accepted_pairs ts offset ops rc)). in_window b e \<Longrightarrow>
   latest (run ts offset ops rc) \<in> insert (latest rc) (set (accepted_pairs ts offset ops rc))
   \<and> (\<forall>q \<in> insert (latest rc) (set (accepted_pairs ts offset ops rc)).
         \<not> newer (latest (run ts offset ops rc)) q)
   \<and> ((\<exists>q \<in> set (accepted_pairs ts offset ops rc). \<not> newer q (latest rc))
        \<longrightarrow> latest (run ts offset ops rc) \<in> set (accepted_pairs ts offset ops rc))
   \<and> latest (update ts now seg ackSeg offset rc')
       = (if \<not> discards ts now seg ackSeg offset rc'
             \<and> newer (latest rc') (seg_xmitTime seg, seg_endSeq seg)
          then (seg_xmitTime seg, seg_endSeq seg) else latest rc')"
proof -
  assume w: "\<forall>e \<in> insert (endSequence rc) (snd ` set (accepted_pairs ts offset ops rc)). in_window b e"
  let ?fin = "latest (run ts offset ops rc)"
  let ?ps = "set (accepted_pairs ts offset ops rc)"
  have w': "\<forall>e \<in> insert (snd (latest rc)) (snd ` ?ps). in_window b e"
    using w by (simp add: latest_def)
  have m: "?fin \<in> insert (latest rc) ?ps" and g: "\<forall>q \<in> insert (latest rc) ?ps. \<not> newer ?fin q"
    using latest_run [OF w'] by simp_all
  have "?fin \<in> ?ps" if q: "q \<in> ?ps" "\<not> newer q (latest rc)" for q
  proof (cases "?fin = latest rc")
    case True
    have "\<not> newer (latest rc) q" using g q(1) True by auto
    moreover have "in_window b (snd q)" "in_window b (snd (latest rc))"
      using w' q(1) by auto
    ultimately have "q = latest rc"
      using q(2) newer_total [of b q "latest rc"] by blast
    then show ?thesis using True q(1) by simp
  next
    case False
    then show ?thesis using m by simp
  qed
  then show ?thesis
    using m g by (auto simp: latest_update)
qed

theorem C6_latest_pair_witness:
  "accepted_pairs ts_millis 0
     [Update 150 (mk_segment 1000 500 100 1 False 0) (mk_segment 0 0 0 0 False 0),
      Update 150 (mk_segment 500 400 110 1 False 0) (mk_segment 0 0 0 0 False 0)]
     rackControl_zero = [(100, 1500), (110, 900)]
   \<and> in_window 0 (endSequence rackControl_zero) \<and> in_window 0 1500 \<and> in_window 0 900
   \<and> \<not> newer (100, 1500) (latest rackControl_zero)
   \<and> latest (run ts_millis 0
     [Update 150 (mk_segment 1000 500 100 1 False 0) (mk_segment 0 0 0 0 False 0),
      Update 150 (mk_segment 500 400 110 1 False 0) (mk_segment 0 0 0 0 False 0)]
     rackControl_zero) = (110, 900)"
proof -
  let ?ops = "[Update 150 (mk_segment 1000 500 100 1 False 0) (mk_segment 0 0 0 0 False 0),
      Update 150 (mk_segment 500 400 110 1 False 0) (mk_segment 0 0 0 0 False 0)]"
  have ps: "accepted_pairs ts_millis 0 ?ops rackControl_zero = [(100, 1500), (110, 900)]"
    by (simp add: accepted_pairs_def eval_defs)
  have iw: "in_window 0 (endSequence rackControl_zero)" "in_window 0 1500" "in_window 0 900"
    by (simp_all add: in_window_def rackControl_zero_def)
  have w: "\<forall>e \<in> insert (endSequence rackControl_zero)
      (snd ` set (accepted_pairs ts_millis 0 ?ops rackControl_zero)). in_window 0 e"
    using iw by (simp add: ps)
  have n: "\<not> newer (100, 1500) (latest rackControl_zero)"
    by (simp add: newer_def latest_def eval_defs)
  have n2: "newer (100, 1500) (110, 900)" "newer (latest rackControl_zero) (110, 900)"
    by (simp_all add: newer_def latest_def eval_defs)
  have ex: "\<exists>q \<in> set (accepted_pairs ts_millis 0 ?ops rackControl_zero).
      \<not> newer q (latest rackControl_zero)"
    using n by (simp add: ps)
  from C6_latest_pair [OF w, of _ _ _ rackControl_zero]
  have "latest (run ts_millis 0 ?ops rackControl_zero) \<in> {(100, 1500), (110, 900)}"
    and "\<not> newer (latest (run ts_millis 0 ?ops rackControl_zero)) (110, 900)"
    using ex by (simp_all add: ps)
  then have "latest (run ts_millis 0 ?ops rackControl_zero) = (110, 900)"
    using n2(1) by auto
  then show ?thesis using ps iw n by simp
qed

text \<open>
  C6 as stated fails in two ways. First, the state may already hold a later
  transmit time than any accepted segment of the calls: below the state holds
  (200, 3000), the one accepted segment has (100, 1500), and the pair stays
  (200, 3000). Second, the modular order has cycles: three accepted segments with
  the same transmit time and end sequences \<open>0x60000000\<close>, \<open>0xC0000000\<close> and
  \<open>0x20000000\<close> leave the end sequence \<open>0x20000000\<close>, although the first segment's
  end sequence is greater than it in modular order.
\<close>

theorem C6_counterexample:
  "accepted_pairs ts_millis 0
     [Update 250 (mk_segment 1000 500 100 1 False 0) (mk_segment 0 0 0 0 False 0)]
     (rackControl_zero\<lparr>xmitTime := 200, endSequence := 3000\<rparr>) = [(100, 1500)]
   \<and> latest (run ts_millis 0
     [Update 250 (mk_segment 1000 500 100 1 False 0) (mk_segment 0 0 0 0 False 0)]
     (rackControl_zero\<lparr>xmitTime := 200, endSequence := 3000\<rparr>)) = (200, 3000)
   \<and> accepted_pairs ts_millis 0
     [Update 150 (mk_segment 0x5FFFFF9C 100 100 1 False 0) (mk_segment 0 0 0 0 False 0),
      Update 150 (mk_segment 0xBFFFFF9C 100 100 1 False 0) (mk_segment 0 0 0 0 False 0),
      Update 150 (mk_segment 0x1FFFFF9C 100 100 1 False 0) (mk_segment 0 0 0 0 False 0)]
     rackControl_zero = [(100, 0x60000000), (100, 0xC0000000), (100, 0x20000000)]
   \<and> latest (run ts_millis 0
     [Update 150 (mk_segment 0x5FFFFF9C 100 100 1 False 0) (mk_segment 0 0 0 0 False 0),
      Update 150 (mk_segment 0xBFFFFF9C 100 100 1 False 0) (mk_segment 0 0 0 0 False 0),
      Update 150 (mk_segment 0x1FFFFF9C 100 100 1 False 0) (mk_segment 0 0 0 0 False 0)]
     rackControl_zero) = (100, 0x20000000)
   \<and> newer (100, 0x20000000) (100, 0x60000000)"
  by (simp add: accepted_pairs_def latest_def newer_def eval_defs)

text \<open>
  C2, as the code has it. Take a batch of calls of the three operations in which no
  segment given to \<open>update\<close> was retransmitted and no sample is zero, and whose end
  sequences, with endSequence and fack of the state, all lie in one window of fewer
  than \<open>2 ^ 31\<close> sequence numbers. Then every reordering of the batch, each call
  made once with the same clock reading, ends with the same minRTT, xmitTime,
  endSequence and fack.
\<close>

theorem C2_order_independent:
  "mset ops' = mset ops \<Longrightarrow> \<forall>x \<in> set ops. unfiltered x \<and> op_in_window b x \<Longrightarrow>
   in_window b (endSequence rc) \<Longrightarrow> in_window b (fack rc) \<Longrightarrow>
   minRTT (run ts offset ops' rc) = minRTT (run ts offset ops rc)
   \<and> xmitTime (run ts offset ops' rc) = xmitTime (run ts offset ops rc)
   \<and> endSequence (run ts offset ops' rc) = endSequence (run ts offset ops rc)
   \<and> fack (run ts offset ops' rc) = fack (run ts offset ops rc)"
proof -
  assume p: "mset ops' = mset ops" and g: "\<forall>x \<in> set ops. unfiltered x \<and> op_in_window b x"
    and w: "in_window b (endSequence rc)" "in_window b (fack rc)"
  have g': "\<forall>x \<in> set ops'. unfiltered x \<and> op_in_window b x"
    using g mset_eq_setD [OF p] by simp
  have "fold (abs_step b) ops (abs_state b rc) = fold (abs_step b) ops' (abs_state b rc)"
  proof -
    have "abs_step b x \<circ> abs_step b y = abs_step b y \<circ> abs_step b x"
      if "x \<in> set ops" "y \<in> set ops" for x y
      using that g by (auto simp: fun_eq_iff abs_step_commute)
    from fold_multiset_equiv [OF this p [symmetric]] show ?thesis by simp
  qed
  then have "abs_state b (run ts offset ops' rc) = abs_state b (run ts offset ops rc)"
    using run_abs [OF g w] run_abs [OF g' w] by simp
  then show ?thesis
    by (auto simp: abs_state_def dest: window_inj)
qed


theorem C2_order_independent_witness:
  "mset [Update 150 (mk_segment 500 400 110 1 False 0) (mk_segment 0 0 0 0 False 0),
         DetectReorder (mk_segment 500 400 110 1 False 0),
         Update 150 (mk_segment 1000 500 100 1 False 0) (mk_segment 0 0 0 0 False 0),
         DetectReorder (mk_segment 1000 500 100 1 False 0)]
     = mset [Update 150 (mk_segment 1000 500 100 1 False 0) (mk_segment 0 0 0 0 False 0),
         DetectReorder (mk_segment 1000 500 100 1 False 0),
         Update 150 (mk_segment 500 400 110 1 False 0) (mk_segment 0 0 0 0 False 0),
         DetectReorder (mk_segment 500 400 110 1 False 0)]
   \<and> in_window 0 (endSequence rackControl_zero) \<and> in_window 0 (fack rackControl_zero)
   \<and> minRTT (run ts_millis 0
        [Update 150 (mk_segment 500 400 110 1 False 0) (mk_segment 0 0 0 0 False 0),
         DetectReorder (mk_segment 500 400 110 1 False 0),
         Update 150 (mk_segment 1000 500 100 1 False 0) (mk_segment 0 0 0 0 False 0),
         DetectReorder (mk_segment 1000 500 100 1 False 0)] rackControl_zero) = 40
   \<and> xmitTime (run ts_millis 0
        [Update 150 (mk_segment 500 400 110 1 False 0) (mk_segment 0 0 0 0 False 0),
         DetectReorder (mk_segment 500 400 110 1 False 0),
         Update 150 (mk_segment 1000 500 100 1 False 0) (mk_segment 0 0 0 0 False 0),
         DetectReorder (mk_segment 1000 500 100 1 False 0)] rackControl_zero) = 110
   \<and> endSequence (run ts_millis 0
        [Update 150 (mk_segment 500 400 110 1 False 0) (mk_segment 0 0 0 0 False 0),
         DetectReorder (mk_segment 500 400 110 1 False 0),
         Update 150 (mk_segment 1000 500 100 1 False 0) (mk_segment 0 0 0 0 False 0),
         DetectReorder (mk_segment 1000 500 100 1 False 0)] rackControl_zero) = 900
   \<and> fack (run ts_millis 0
        [Update 150 (mk_segment 500 400 110 1 False 0) (mk_segment 0 0 0 0 False 0),
         DetectReorder (mk_segment 500 400 110 1 False 0),
         Update 150 (mk_segment 1000 500 100 1 False 0) (mk_segment 0 0 0 0 False 0),
         DetectReorder (mk_segment 1000 500 100 1 False 0)] rackControl_zero) = 1500"
proof -
  let ?A = "mk_segment 1000 500 100 1 False 0"
  let ?B = "mk_segment 500 400 110 1 False 0"
  let ?k = "mk_segment 0 0 0 0 False 0"
  let ?ops = "[Update 150 ?A ?k, DetectReorder ?A, Update 150 ?B ?k, DetectReorder ?B]"
  let ?ops' = "[Update 150 ?B ?k, DetectReorder ?B, Update 150 ?A ?k, DetectReorder ?A]"
  have p: "mset ?ops' = mset ?ops"
    by (simp add: add_mset_commute)
  have g: "\<forall>x \<in> set ?ops. unfiltered x \<and> op_in_window 0 x"
    by (simp add: in_window_def eval_defs)
  have w: "in_window 0 (endSequence rackControl_zero)" "in_window 0 (fack rackControl_zero)"
    by (simp_all add: in_window_def rackControl_zero_def)
  have v: "minRTT (run ts_millis 0 ?ops rackControl_zero) = 40"
    "xmitTime (run ts_millis 0 ?ops rackControl_zero) = 110"
    "endSequence (run ts_millis 0 ?ops rackControl_zero) = 900"
    "fack (run ts_millis 0 ?ops rackControl_zero) = 1500"
    by (simp_all add: eval_defs)
  show ?thesis
    using C2_order_independent [OF p g w, of ts_millis 0] p w v by simp
qed

text \<open>
  C2 as stated fails in four ways. A retransmitted segment (second of the first
  batch) is filtered after the other segment and accepted before it, which changes
  minRTT and the pair of xmitTime and endSequence. A sample of zero (second batch)
  is forgotten when it comes first and kept when it comes last. End sequences that
  are not in one window (third batch) leave a different fack, and two segments with
  one transmit time and end sequences \<open>2 ^ 31\<close> apart (fourth batch) leave a
  different endSequence, depending on the order.
\<close>

theorem C2_counterexample:
  "minRTT (run ts_millis 0
      [Update 150 (mk_segment 1000 500 100 1 False 0) (mk_segment 0 0 0 0 False 0),
       DetectReorder (mk_segment 1000 500 100 1 False 0),
       Update 150 (mk_segment 1500 500 110 2 False 0) (mk_segment 0 0 0 0 False 0),
       DetectReorder (mk_segment 1500 500 110 2 False 0)] rackControl_zero) = 50
   \<and> minRTT (run ts_millis 0
      [Update 150 (mk_segment 1500 500 110 2 False 0) (mk_segment 0 0 0 0 False 0),
       DetectReorder (mk_segment 1500 500 110 2 False 0),
       Update 150 (mk_segment 1000 500 100 1 False 0) (mk_segment 0 0 0 0 False 0),
       DetectReorder (mk_segment 1000 500 100 1 False 0)] rackControl_zero) = 40
   \<and> latest (run ts_millis 0
      [Update 150 (mk_segment 1000 500 100 1 False 0) (mk_segment 0 0 0 0 False 0),
       DetectReorder (mk_segment 1000 500 100 1 False 0),
       Update 150 (mk_segment 1500 500 110 2 False 0) (mk_segment 0 0 0 0 False 0),
       DetectReorder (mk_segment 1500 500 110 2 False 0)] rackControl_zero) = (100, 1500)
   \<and> latest (run ts_millis 0
      [Update 150 (mk_segment 1500 500 110 2 False 0) (mk_segment 0 0 0 0 False 0),
       DetectReorder (mk_segment 1500 500 110 2 False 0),
       Update 150 (mk_segment 1000 500 100 1 False 0) (mk_segment 0 0 0 0 False 0),
       DetectReorder (mk_segment 1000 500 100 1 False 0)] rackControl_zero) = (110, 2000)
   \<and> minRTT (run ts_millis 0
      [Update 100 (mk_segment 1000 500 100 1 False 0) (mk_segment 0 0 0 0 False 0),
       Update 150 (mk_segment 1500 500 110 1 False 0) (mk_segment 0 0 0 0 False 0)]
      rackControl_zero) = 40
   \<and> minRTT (run ts_millis 0
      [Update 150 (mk_segment 1500 500 110 1 False 0) (mk_segment 0 0 0 0 False 0),
       Update 100 (mk_segment 1000 500 100 1 False 0) (mk_segment 0 0 0 0 False 0)]
      rackControl_zero) = 0
   \<and> fack (run ts_millis 0
      [DetectReorder (mk_segment 0x5FFFFF9C 100 100 1 False 0),
       DetectReorder (mk_segment 0xBFFFFF9C 100 110 1 False 0)] rackControl_zero) = 0xC0000000
   \<and> fack (run ts_millis 0
      [DetectReorder (mk_segment 0xBFFFFF9C 100 110 1 False 0),
       DetectReorder (mk_segment 0x5FFFFF9C 100 100 1 False 0)] rackControl_zero) = 0x60000000
   \<and> endSequence (run ts_millis 0
      [Update 150 (mk_segment 500 500 100 1 False 0) (mk_segment 0 0 0 0 False 0),
       Update 150 (mk_segment 0x800001F4 500 100 1 False 0) (mk_segment 0 0 0 0 False 0)]
      rackControl_zero) = 0x800003E8
   \<and> endSequence (run ts_millis 0
      [Update 150 (mk_segment 0x800001F4 500 100 1 False 0) (mk_segment 0 0 0 0 False 0),
       Update 150 (mk_segment 500 500 100 1 False 0) (mk_segment 0 0 0 0 False 0)]
      rackControl_zero) = 1000"
  by (simp add: latest_def eval_defs)

end
